theory Spec2Isabelle
  imports Main
begin

section \<open>JavaScript values\<close>

text \<open>
  The values that flow through the two programs: parsed JSON (response bodies, channel
  messages, the settings object) and the results of reading a property of an object
  literal. \<open>JNative n\<close> is the built-in function or object that every plain object
  inherits under the name \<open>n\<close>. Numbers are kept as integers: the programs only pass
  them on or test them for truthiness.
\<close>

datatype jsval =
    JUndefined
  | JNull
  | JBool bool
  | JNum int
  | JStr string
  | JArr "jsval list"
  | JObj "(string \<times> jsval) list"
  | JNative string

datatype js_error = TypeError | SyntaxError | NetworkError

type_synonym props = "(string \<times> jsval) list"

text \<open>Truthiness, as \<open>if (v)\<close>, \<open>v && w\<close> and \<open>v || w\<close> test it.\<close>

fun truthy :: "jsval \<Rightarrow> bool" where
  "truthy JUndefined = False"
| "truthy JNull = False"
| "truthy (JBool b) = b"
| "truthy (JNum n) = (n \<noteq> 0)"
| "truthy (JStr s) = (s \<noteq> [])"
| "truthy (JArr xs) = True"
| "truthy (JObj ps) = True"
| "truthy (JNative n) = True"

text \<open>\<open>a || b\<close>\<close>

definition js_or :: "jsval \<Rightarrow> jsval \<Rightarrow> jsval" where
  "js_or a b = (if truthy a then a else b)"

text \<open>
  \<open>a === b\<close>. Primitives compare by value. Two objects are equal only when they are the
  same object; every object compared in these programs was created separately (parsed
  from a different message or written as a different literal), so objects are unequal.
  Built-in values are never compared.
\<close>

fun strict_eq :: "jsval \<Rightarrow> jsval \<Rightarrow> bool" where
  "strict_eq JUndefined JUndefined = True"
| "strict_eq JNull JNull = True"
| "strict_eq (JBool a) (JBool b) = (a = b)"
| "strict_eq (JNum a) (JNum b) = (a = b)"
| "strict_eq (JStr a) (JStr b) = (a = b)"
| "strict_eq a b = False"

text \<open>
  The members every plain object inherits from \<open>Object.prototype\<close>. A read
  \<open>obj[k]\<close> of a plain object finds an own property first, then one of these.
\<close>

definition object_prototype :: "string list" where
  "object_prototype =
     [''constructor'', ''hasOwnProperty'', ''isPrototypeOf'', ''propertyIsEnumerable'',
      ''toLocaleString'', ''toString'', ''valueOf'', ''__proto__'',
      ''__defineGetter__'', ''__defineSetter__'', ''__lookupGetter__'', ''__lookupSetter__'']"

definition get_prop :: "props \<Rightarrow> string \<Rightarrow> jsval" where
  "get_prop ps k =
     (case map_of ps k of
        Some v \<Rightarrow> v
      | None \<Rightarrow> if k \<in> set object_prototype then JNative k else JUndefined)"

text \<open>
  \<open>v[k]\<close> or \<open>v.k\<close> for a value of unknown shape. Reading a property of
  \<open>undefined\<close> or \<open>null\<close> throws. The names read this way here (\<open>entity_id\<close>,
  \<open>state\<close>, \<open>attributes\<close>, \<open>friendly_name\<close>, \<open>location_name\<close>, \<open>key\<close>,
  \<open>id\<close>, \<open>name\<close>, \<open>value\<close>) are members of no string, number, boolean, array or
  function, so those yield \<open>undefined\<close>.
\<close>

fun field :: "jsval \<Rightarrow> string \<Rightarrow> js_error + jsval" where
  "field JUndefined k = Inl TypeError"
| "field JNull k = Inl TypeError"
| "field (JObj ps) k = Inr (get_prop ps k)"
| "field v k = Inr JUndefined"

text \<open>\<open>obj.k = v\<close> on a plain object: an existing own property keeps its place.\<close>

fun set_prop :: "props \<Rightarrow> string \<Rightarrow> jsval \<Rightarrow> props" where
  "set_prop [] k v = [(k, v)]"
| "set_prop ((k', v') # ps) k v =
     (if k' = k then (k, v) # ps else (k', v') # set_prop ps k v)"

text \<open>\<open>s.split(".")[0]\<close>: the part of \<open>s\<close> before its first dot, all of \<open>s\<close> without one.\<close>

definition split_head :: "string \<Rightarrow> string" where
  "split_head s = takeWhile (\<lambda>c. c \<noteq> CHR ''.'') s"

text \<open>\<open>s.startsWith(p)\<close>\<close>

definition startsWith :: "string \<Rightarrow> string \<Rightarrow> bool" where
  "startsWith s p = (take (length p) s = p)"

text \<open>The decimal form of a number, as a template literal prints \<open>response.status\<close>.\<close>

fun show_nat :: "nat \<Rightarrow> string" where
  "show_nat n =
     (if n < 10 then [char_of (48 + n)]
      else show_nat (n div 10) @ [char_of (48 + n mod 10)])"

declare show_nat.simps [simp del]

section \<open>The gateway (HomeAssistantAPI)\<close>

subsection \<open>Lookup tables\<close>

definition Groups :: props where
  "Groups =
     [(''switch'', JStr ''switch''),
      (''light'', JStr ''light''),
      (''group'', JStr ''homeassistant''),
      (''script'', JStr ''script''),
      (''automation'', JStr ''automation''),
      (''button'', JStr ''button''),
      (''cover'', JStr ''cover'')]"

definition NextStateOverrides :: props where
  "NextStateOverrides =
     [(''script'', JStr ''turn_on''),
      (''automation'', JStr ''trigger''),
      (''button'', JStr ''press'')]"

definition ForcedStates :: props where
  "ForcedStates =
     [(''turn_on'', JStr ''on''),
      (''turn_off'', JStr ''off''),
      (''close_cover'', JStr ''closed''),
      (''open_cover'', JStr ''open'')]"

subsection \<open>Configuration\<close>

text \<open>
  The object's four fields. \<open>url\<close>, \<open>port\<close> and \<open>token\<close> are strings, \<open>None\<close>
  standing for \<open>undefined\<close>, which \<open>isValid\<close> tests for.
\<close>

record HomeAssistantAPI =
  url :: "string option"
  port :: "string option"
  token :: "string option"
  force :: bool

text \<open>The constructor \<open>HomeAssistantAPI()\<close>.\<close>

definition new_HomeAssistantAPI :: HomeAssistantAPI where
  "new_HomeAssistantAPI = \<lparr>url = Some '''', port = Some '''', token = Some '''', force = False\<rparr>"

definition isValid :: "HomeAssistantAPI \<Rightarrow> bool" where
  "isValid self \<longleftrightarrow>
     url self \<noteq> None \<and> port self \<noteq> None \<and> token self \<noteq> None
     \<and> url self \<noteq> Some '''' \<and> port self \<noteq> Some '''' \<and> token self \<noteq> Some ''''"

text \<open>
  The setters; the argument \<open>None\<close> is \<open>undefined\<close>. The method \<open>setup\<close> is named
  \<open>setup_api\<close> here, \<open>setup\<close> being a reserved word.
\<close>

definition changeUrl :: "string option \<Rightarrow> HomeAssistantAPI \<Rightarrow> HomeAssistantAPI" where
  "changeUrl u self =
     (if u \<noteq> None then self\<lparr>url := u\<rparr> else self\<lparr>url := Some ''127.0.0.1''\<rparr>)"

definition changePort :: "string option \<Rightarrow> HomeAssistantAPI \<Rightarrow> HomeAssistantAPI" where
  "changePort p self =
     (if p \<noteq> None then self\<lparr>port := p\<rparr> else self\<lparr>port := Some ''8123''\<rparr>)"

definition changeToken :: "string option \<Rightarrow> HomeAssistantAPI \<Rightarrow> HomeAssistantAPI" where
  "changeToken t self =
     (if t \<noteq> None then self\<lparr>token := t\<rparr> else self\<lparr>token := Some ''''\<rparr>)"

definition changeForce :: "bool option \<Rightarrow> HomeAssistantAPI \<Rightarrow> HomeAssistantAPI" where
  "changeForce f self =
     (case f of Some b \<Rightarrow> self\<lparr>force := b\<rparr> | None \<Rightarrow> self\<lparr>force := True\<rparr>)"

definition setup_api ::
  "string option \<Rightarrow> string option \<Rightarrow> string option \<Rightarrow> bool option
    \<Rightarrow> HomeAssistantAPI \<Rightarrow> HomeAssistantAPI" where
  "setup_api u p t f self = changeForce f (changeToken t (changePort p (changeUrl u self)))"

text \<open>String concatenation prints \<open>undefined\<close> by name.\<close>

definition js_str :: "string option \<Rightarrow> string" where
  "js_str s = (case s of Some x \<Rightarrow> x | None \<Rightarrow> ''undefined'')"

definition address :: "HomeAssistantAPI \<Rightarrow> string" where
  "address self = js_str (url self) @ '':'' @ js_str (port self)"

definition isExecutable :: "string \<Rightarrow> bool" where
  "isExecutable entity =
     (if \<not> startsWith entity ''script'' \<and> \<not> startsWith entity ''automation''
         \<and> \<not> startsWith entity ''button''
      then False else True)"

subsection \<open>Requests, responses and the channel\<close>

text \<open>
  A request as \<open>fetch\<close> receives it. The URL is a template literal; it is kept as the
  list of its pieces in order (the URL is the concatenation of their string forms).
  \<open>req_body\<close> holds the value that \<open>JSON.stringify\<close> turns into the body.
\<close>

record request =
  req_method :: string
  req_url :: "jsval list"
  req_body :: "jsval option"
  req_headers :: "(string \<times> string) list"

text \<open>
  What a response shows the program: its status, and the value \<open>response.json()\<close>
  resolves to (\<open>None\<close> when the body does not parse and \<open>json()\<close> rejects).
  \<open>response.ok\<close> is true for the statuses 200 to 299.
\<close>

record response =
  status :: nat
  body :: "jsval option"

definition ok :: "response \<Rightarrow> bool" where
  "ok r \<longleftrightarrow> 200 \<le> status r \<and> status r \<le> 299"

datatype fetch_result = Rejected | Responded response

text \<open>
  The argument of a call to \<open>sendData\<close>: an object, or the string
  \<open>JSON.stringify\<close> made of one.
\<close>

datatype payload = Value jsval | Stringified jsval

text \<open>
  What the platform and the module \<open>common/utils\<close> supply: the network behind
  \<open>fetch\<close>, the helper \<open>isEmpty\<close> and the translation table behind \<open>gettext\<close>.
\<close>

record env =
  fetch :: "request \<Rightarrow> fetch_result"
  isEmpty :: "jsval \<Rightarrow> bool"
  gettext :: "string \<Rightarrow> string"

text \<open>
  The effects of the gateway's operations: the requests handed to \<open>fetch\<close> and the
  messages handed to \<open>sendData\<close>, oldest first. Lines written to the console are not
  part of the model.
\<close>

record effects =
  requests :: "request list"
  sent :: "payload list"

text \<open>
  Modelled from the spec: \<open>sendData\<close> of \<open>common/utils\<close> is not among the sources;
  the spec has each call emit its argument as one event on the message channel.
\<close>

definition sendData :: "payload \<Rightarrow> effects \<Rightarrow> effects" where
  "sendData msg fx = fx\<lparr>sent := sent fx @ [msg]\<rparr>"

definition headers :: "HomeAssistantAPI \<Rightarrow> (string \<times> string) list" where
  "headers self =
     [(''Authorization'', ''Bearer '' @ js_str (token self)),
      (''content-type'', ''application/json'')]"

subsection \<open>fetchEntity\<close>

definition entity_request :: "HomeAssistantAPI \<Rightarrow> string \<Rightarrow> request" where
  "entity_request self entity =
     \<lparr>req_method = ''GET'',
      req_url = [JStr (address self), JStr ''/api/states/'', JStr entity],
      req_body = None,
      req_headers = headers self\<rparr>"

text \<open>
  The message \<open>fetchEntity\<close> builds from the parsed body \<open>data\<close>, or the exception
  thrown on the way: \<open>data\<close> may be \<open>null\<close>, and \<open>split\<close> exists on strings only.
\<close>

definition add_message :: "jsval \<Rightarrow> js_error + props" where
  "add_message data =
     (case field data ''entity_id'' of
        Inl e \<Rightarrow> Inl e
      | Inr eid \<Rightarrow>
          (case field data ''state'' of
             Inl e \<Rightarrow> Inl e
           | Inr st \<Rightarrow>
               (case eid of
                  JStr s \<Rightarrow>
                    (let msgData =
                           [(''key'', JStr ''add''), (''id'', eid), (''name'', eid),
                            (''state'', st), (''type'', JStr (split_head s))]
                     in case field data ''attributes'' of
                          Inl e \<Rightarrow> Inl e
                        | Inr attrs \<Rightarrow>
                            (case (if truthy attrs then field attrs ''friendly_name''
                                   else Inr attrs) of
                               Inl e \<Rightarrow> Inl e
                             | Inr fname \<Rightarrow>
                                 (let msgData1 =
                                        (if truthy fname then set_prop msgData ''name'' fname
                                         else msgData);
                                      msgData2 =
                                        (if isExecutable s
                                         then set_prop msgData1 ''state'' (JStr ''exe'')
                                         else msgData1)
                                  in Inr msgData2)))
                | _ \<Rightarrow> Inl TypeError)))"

definition fetchEntity :: "env \<Rightarrow> HomeAssistantAPI \<Rightarrow> string \<Rightarrow> effects \<Rightarrow> effects" where
  "fetchEntity env self entity fx =
     (if isValid self then
        (let req = entity_request self entity;
             fx1 = fx\<lparr>requests := requests fx @ [req]\<rparr>
         in case fetch env req of
              Rejected \<Rightarrow> fx1
            | Responded r \<Rightarrow>
                if ok r then
                  (case body r of
                     None \<Rightarrow> fx1
                   | Some data \<Rightarrow>
                       (case add_message data of
                          Inl e \<Rightarrow> fx1
                        | Inr msgData \<Rightarrow> sendData (Value (JObj msgData)) fx1))
                else fx1)
      else fx)"

subsection \<open>fetchApiStatus\<close>

definition config_request :: "HomeAssistantAPI \<Rightarrow> request" where
  "config_request self =
     \<lparr>req_method = ''GET'',
      req_url = [JStr (address self), JStr ''/api/config''],
      req_body = None,
      req_headers = headers self\<rparr>"

definition connection_error :: "env \<Rightarrow> payload" where
  "connection_error env =
     Value (JObj [(''key'', JStr ''api''), (''value'', JStr (gettext env ''connection_error''))])"

definition fetchApiStatus :: "env \<Rightarrow> HomeAssistantAPI \<Rightarrow> effects \<Rightarrow> effects" where
  "fetchApiStatus env self fx =
     (if isValid self then
        (let req = config_request self;
             fx1 = fx\<lparr>requests := requests fx @ [req]\<rparr>
         in case fetch env req of
              Rejected \<Rightarrow> sendData (connection_error env) fx1
            | Responded r \<Rightarrow>
                (case body r of
                   None \<Rightarrow> sendData (connection_error env) fx1
                 | Some data \<Rightarrow>
                     if status r = 200 then
                       (case field data ''location_name'' of
                          Inl e \<Rightarrow> sendData (connection_error env) fx1
                        | Inr name \<Rightarrow>
                            sendData
                              (Value (JObj [(''key'', JStr ''api''), (''value'', JStr ''ok''),
                                            (''name'', name)]))
                              fx1)
                     else
                       sendData
                         (Stringified
                            (JObj [(''key'', JStr ''api''),
                                   (''value'',
                                    JStr (gettext env ''error'' @ '' '' @ show_nat (status r)))]))
                         fx1))
      else fx)"

subsection \<open>changeEntity\<close>

text \<open>
  \<open>ForcedStates[state]\<close>. \<open>state\<close> is the caller's string or the value found in
  \<open>NextStateOverrides\<close>. A property key is the string form of the value; the string form
  of a built-in function or object (\<open>function ...() { [native code] }\<close>,
  \<open>[object Object]\<close>) names neither an entry of the table nor an inherited member.
\<close>

fun index_by :: "props \<Rightarrow> jsval \<Rightarrow> jsval" where
  "index_by table (JStr k) = get_prop table k"
| "index_by table v = JUndefined"

text \<open>The action that is sent: \<open>NextStateOverrides[domain] || state\<close>.\<close>

definition next_state :: "string \<Rightarrow> string \<Rightarrow> jsval" where
  "next_state entity state = js_or (get_prop NextStateOverrides (split_head entity)) (JStr state)"

definition change_request :: "HomeAssistantAPI \<Rightarrow> string \<Rightarrow> string \<Rightarrow> request" where
  "change_request self entity state =
     (let json = JObj [(''entity_id'', JStr entity)];
          domain = split_head entity;
          group = get_prop Groups domain
      in \<lparr>req_method = ''POST'',
          req_url = [JStr (address self), JStr ''/api/services/'', group, JStr ''/'',
                     next_state entity state],
          req_body = Some json,
          req_headers = headers self\<rparr>)"

text \<open>
  The body of the \<open>forEach\<close> callback for one element of the response. Reading a
  property of a \<open>null\<close> element throws.
\<close>

definition on_element :: "string \<Rightarrow> jsval \<Rightarrow> effects \<Rightarrow> js_error + effects" where
  "on_element entity element fx =
     (case field element ''entity_id'' of
        Inl e \<Rightarrow> Inl e
      | Inr eid \<Rightarrow>
          if strict_eq eid (JStr entity) then
            (case field element ''state'' of
               Inl e \<Rightarrow> Inl e
             | Inr st \<Rightarrow>
                 (let msgData = JObj [(''key'', JStr ''change''), (''id'', eid), (''state'', st)]
                  in if \<not> isExecutable entity then Inr (sendData (Value msgData) fx)
                     else Inr fx))
          else Inr fx)"

text \<open>
  \<open>data.forEach(...)\<close> inside the \<open>try\<close>: an exception ends the loop and is caught
  (and logged); what was sent before it stays sent.
\<close>

fun forEach_element :: "string \<Rightarrow> jsval list \<Rightarrow> effects \<Rightarrow> effects" where
  "forEach_element entity [] fx = fx"
| "forEach_element entity (element # rest) fx =
     (case on_element entity element fx of
        Inl e \<Rightarrow> fx
      | Inr fx' \<Rightarrow> forEach_element entity rest fx')"

text \<open>
  \<open>forEach\<close> exists on arrays only: on any other non-empty \<open>data\<close> the call throws
  inside the \<open>try\<close> and nothing is sent. Every failure (rejected request, status
  outside 200 to 299, unparsable body, exception) is caught or only logged.
\<close>

definition changeEntity ::
  "env \<Rightarrow> HomeAssistantAPI \<Rightarrow> string \<Rightarrow> string \<Rightarrow> effects \<Rightarrow> effects" where
  "changeEntity env self entity state fx =
     (if isValid self then
        (let req = change_request self entity state;
             state' = next_state entity state;
             fx1 = fx\<lparr>requests := requests fx @ [req]\<rparr>
         in case fetch env req of
              Rejected \<Rightarrow> fx1
            | Responded r \<Rightarrow>
                if ok r then
                  (case body r of
                     None \<Rightarrow> fx1
                   | Some data \<Rightarrow>
                       if force self then
                         (let msgData =
                                JObj [(''key'', JStr ''change''), (''id'', JStr entity),
                                      (''state'', js_or (index_by ForcedStates state') state')]
                          in if \<not> isExecutable entity then sendData (Value msgData) fx1
                             else fx1)
                       else if \<not> isEmpty env data then
                         (case data of
                            JArr elements \<Rightarrow> forEach_element entity elements fx1
                          | _ \<Rightarrow> fx1)
                       else fx1)
                else fx1)
      else fx)"

section \<open>The store (device application)\<close>

text \<open>
  The device's module state: the flag \<open>Available\<close>, the text shown in
  \<open>AddressText\<close>, the \<open>settings\<close> object (persisted on unload), the arrays
  \<open>Categories\<close> and \<open>Entities\<close>, the length last given to the entity list widget,
  and the messages handed to \<open>sendData\<close>. The elements of \<open>Entities\<close> are the object
  literals pushed by the \<open>add\<close> branch. The texts written into tiles are display
  only and not part of the state.
\<close>

record store =
  Available :: bool
  AddressText :: jsval
  settings :: props
  Categories :: "jsval list"
  Entities :: "props list"
  list_length :: nat
  replies :: "payload list"

text \<open>
  \<open>loadSettings\<close>: the object read from the settings file, or the fallback object when
  reading throws (\<open>None\<close>).
\<close>

definition loadSettings :: "props option \<Rightarrow> props" where
  "loadSettings file =
     (case file of
        Some obj \<Rightarrow> obj
      | None \<Rightarrow>
          [(''url'', JStr ''localhost''), (''port'', JStr ''8123''),
           (''token'', JStr []), (''force'', JBool True)])"

text \<open>The state after the module's top-level code has run.\<close>

definition initial_store :: "env \<Rightarrow> props option \<Rightarrow> store" where
  "initial_store env file =
     \<lparr>Available = False,
      AddressText = JStr (gettext env ''unavailable''),
      settings = loadSettings file,
      Categories = [],
      Entities = [],
      list_length = 0,
      replies = []\<rparr>"

text \<open>
  \<open>setupList(list, data)\<close> installs a delegate closing over \<open>data\<close> and sets the
  widget's length. The platform calls the delegate later, see \<open>Tile\<close> below.
\<close>

definition setupList :: "props list \<Rightarrow> store \<Rightarrow> store" where
  "setupList data s = s\<lparr>list_length := length data\<rparr>"

text \<open>\<open>getTileInfo(index)\<close> of the delegate installed for \<open>data\<close>.\<close>

definition getTileInfo :: "props list \<Rightarrow> nat \<Rightarrow> js_error + props" where
  "getTileInfo data index =
     (if index < length data then
        (case get_prop (data ! index) ''id'' of
           JStr s \<Rightarrow>
             Inr [(''type'', JStr ''item-pool''),
                  (''category'', JStr (split_head s)),
                  (''name'', get_prop (data ! index) ''name''),
                  (''state'', get_prop (data ! index) ''state''),
                  (''index'', JNum (int index))]
         | _ \<Rightarrow> Inl TypeError)
      else Inl TypeError)"

text \<open>The scan \<open>for (i = 0; i < Categories.length; i++)\<close> with its \<open>break\<close>.\<close>

fun categoryExists :: "jsval list \<Rightarrow> jsval \<Rightarrow> bool" where
  "categoryExists [] category = False"
| "categoryExists (c # cs) category =
     (if strict_eq c category then True else categoryExists cs category)"

definition configureTile :: "props \<Rightarrow> store \<Rightarrow> store" where
  "configureTile info s =
     (if strict_eq (get_prop info ''type'') (JStr ''item-pool'') then
        (if \<not> categoryExists (Categories s) (get_prop info ''category'')
         then s\<lparr>Categories := Categories s @ [get_prop info ''category'']\<rparr>
         else s)
      else s)"

text \<open>
  The callback of \<open>Entities.forEach\<close> in the \<open>change\<close> branch: an element whose id
  is the message's gets the message's state.
\<close>

definition change_state :: "jsval \<Rightarrow> jsval \<Rightarrow> props \<Rightarrow> props" where
  "change_state ident st entity =
     (if strict_eq (get_prop entity ''id'') ident then set_prop entity ''state'' st else entity)"

text \<open>
  \<open>messaging.peerSocket.onmessage\<close>, applied to \<open>evt.data\<close>: the state afterwards, and
  the exception when the handler throws (the state keeps what was done before it).
  Once \<open>evt.data.key\<close> has been read, \<open>evt.data\<close> is neither \<open>undefined\<close> nor
  \<open>null\<close> and its other properties read without exception. In the \<open>change\<close>
  branch every matching element calls \<open>setupList\<close>.
\<close>

definition onmessage :: "jsval \<Rightarrow> store \<Rightarrow> js_error option \<times> store" where
  "onmessage data s =
     (case field data ''key'' of
        Inl e \<Rightarrow> (Some e, s)
      | Inr key \<Rightarrow>
          (case (field data ''id'', field data ''name'', field data ''state'',
                 field data ''value'') of
             (Inr ident, Inr name, Inr st, Inr val) \<Rightarrow>
               if strict_eq key (JStr ''clear'') then
                 (None, s\<lparr>Entities := [],
                           settings := set_prop (settings s) ''entities'' (JArr [])\<rparr>)
               else if strict_eq key (JStr ''add'') then
                 (let s1 = s\<lparr>Entities :=
                               Entities s @ [[(''id'', ident), (''name'', name), (''state'', st)]]\<rparr>
                  in case get_prop (settings s1) ''entities'' of
                       JArr es \<Rightarrow>
                         (let s2 = s1\<lparr>settings :=
                                        set_prop (settings s1) ''entities''
                                          (JArr (es @ [JObj [(''name'', ident)]]))\<rparr>;
                              s3 = setupList (Entities s2) s2
                          in (None, s3\<lparr>Categories := Categories s3 @ [JObj [(''id'', ident)]]\<rparr>))
                     | _ \<Rightarrow> (Some TypeError, s1))
               else if strict_eq key (JStr ''change'') then
                 (let s1 = s\<lparr>Entities := map (change_state ident st) (Entities s)\<rparr>
                  in if filter (\<lambda>entity. strict_eq (get_prop entity ''id'') ident) (Entities s) \<noteq> []
                     then (None, setupList (Entities s1) s1)
                     else (None, s1))
               else if strict_eq key (JStr ''api'') then
                 (if strict_eq val (JStr ''ok'')
                  then (None, s\<lparr>Available := True, AddressText := name\<rparr>)
                  else (None, s\<lparr>Available := False, AddressText := val\<rparr>))
               else if strict_eq key (JStr ''url'') then
                 (let s1 = s\<lparr>settings := set_prop (settings s) ''url'' val\<rparr>
                  in (None, s1\<lparr>replies := replies s1 @
                        [Value (JObj [(''key'', JStr ''url''),
                                      (''value'', get_prop (settings s1) ''url'')])]\<rparr>))
               else if strict_eq key (JStr ''port'') then
                 (let s1 = s\<lparr>settings := set_prop (settings s) ''port'' val\<rparr>
                  in (None, s1\<lparr>replies := replies s1 @
                        [Value (JObj [(''key'', JStr ''port''),
                                      (''value'', get_prop (settings s1) ''port'')])]\<rparr>))
               else if strict_eq key (JStr ''token'') then
                 (let s1 = s\<lparr>settings := set_prop (settings s) ''token'' val\<rparr>
                  in (None, s1\<lparr>replies := replies s1 @
                        [Value (JObj [(''key'', JStr ''token''),
                                      (''value'', get_prop (settings s1) ''token'')])]\<rparr>))
               else if strict_eq key (JStr ''force'') then
                 (let s1 = s\<lparr>settings := set_prop (settings s) ''force'' val\<rparr>
                  in (None, s1\<lparr>replies := replies s1 @
                        [Value (JObj [(''key'', JStr ''force''),
                                      (''value'', get_prop (settings s1) ''force'')])]\<rparr>))
               else (None, s)
           | _ \<Rightarrow> (Some TypeError, s)))"

text \<open>
  What can happen to the store: a message arrives, or the platform renders the tile
  \<open>index\<close> of a list whose delegate closes over the array \<open>data\<close> (\<open>getTileInfo\<close>, then
  \<open>configureTile\<close> with its result). Which array the delegate holds and which tiles
  the platform renders is the platform's business, so a run may render any.
\<close>

datatype step = Message jsval | Tile "props list" nat

fun apply_step :: "step \<Rightarrow> store \<Rightarrow> store" where
  "apply_step (Message data) s = snd (onmessage data s)"
| "apply_step (Tile data index) s =
     (case getTileInfo data index of
        Inl e \<Rightarrow> s
      | Inr info \<Rightarrow> configureTile info s)"

fun run :: "step list \<Rightarrow> store \<Rightarrow> store" where
  "run [] s = s"
| "run (x # xs) s = run xs (apply_step x s)"

text \<open>The category names among the entries of \<open>Categories\<close>, in order.\<close>

fun category_names :: "jsval list \<Rightarrow> string list" where
  "category_names [] = []"
| "category_names (JStr c # cs) = c # category_names cs"
| "category_names (v # cs) = category_names cs"

section \<open>Example inputs\<close>

text \<open>
  A platform whose network gives every request the same result, whose \<open>isEmpty\<close>
  holds of the empty array and the empty object, and whose \<open>gettext\<close> returns
  its key; a valid configuration; and the empty effect log.
\<close>

definition example_env :: "fetch_result \<Rightarrow> env" where
  "example_env result =
     \<lparr>fetch = (\<lambda>req. result),
      isEmpty = (\<lambda>v. v = JArr [] \<or> v = JObj []),
      gettext = (\<lambda>s. s)\<rparr>"

definition example_config :: "bool \<Rightarrow> HomeAssistantAPI" where
  "example_config f =
     \<lparr>url = Some ''http://hass.local'', port = Some ''8123'', token = Some ''secret'',
      force = f\<rparr>"

definition no_effects :: effects where
  "no_effects = \<lparr>requests = [], sent = []\<rparr>"

definition blinds_open :: jsval where
  "blinds_open = JObj [(''entity_id'', JStr ''cover.blinds''), (''state'', JStr ''open'')]"

definition shade_open :: jsval where
  "shade_open = JObj [(''entity_id'', JStr ''cover.shade''), (''state'', JStr ''open'')]"

definition kitchen_light :: props where
  "kitchen_light =
     [(''entity_id'', JStr ''light.kitchen''), (''state'', JStr ''on''),
      (''attributes'', JObj [(''friendly_name'', JStr ''Kitchen'')])]"

definition morning_script :: props where
  "morning_script = [(''entity_id'', JStr ''script.morning''), (''state'', JStr ''off'')]"

definition scripted_entity :: props where
  "scripted_entity = [(''entity_id'', JStr ''scripted.x''), (''state'', JStr ''on'')]"

definition unnamed_light :: props where
  "unnamed_light =
     [(''entity_id'', JStr ''light.hall''), (''state'', JStr ''on''),
      (''attributes'', JObj [(''friendly_name'', JStr [])])]"

text \<open>A settings object with a persisted entity list, and a store that holds one entity.\<close>

definition example_settings :: props where
  "example_settings =
     [(''url'', JStr ''localhost''), (''port'', JStr ''8123''), (''token'', JStr ''secret''),
      (''force'', JBool True), (''entities'', JArr [JObj [(''name'', JStr ''light.a'')]])]"

definition example_store :: store where
  "example_store =
     \<lparr>Available = True,
      AddressText = JStr ''Home'',
      settings = example_settings,
      Categories = [JObj [(''id'', JStr ''light.a'')], JStr ''light''],
      Entities = [[(''id'', JStr ''light.a''), (''name'', JStr ''Lamp''), (''state'', JStr ''on'')]],
      list_length = 1,
      replies = []\<rparr>"

definition example_entity :: "string \<Rightarrow> props" where
  "example_entity ident = [(''id'', JStr ident), (''name'', JStr ident), (''state'', JStr ''on'')]"

definition add_event :: "string \<Rightarrow> props" where
  "add_event ident =
     [(''key'', JStr ''add''), (''id'', JStr ident), (''name'', JStr ident),
      (''state'', JStr ''on'')]"

section \<open>What the operations are expected to send\<close>

text \<open>
  The \<open>change\<close> messages of read-back mode for a response array: one for each element
  whose \<open>entity_id\<close> is the target id, in the array's order, with that element's
  \<open>state\<close>.
\<close>

definition change_events :: "string \<Rightarrow> jsval list \<Rightarrow> payload list" where
  "change_events entity elements =
     map (\<lambda>element.
            Value (JObj [(''key'', JStr ''change''), (''id'', JStr entity),
                         (''state'', case field element ''state'' of
                                       Inr v \<Rightarrow> v | Inl e \<Rightarrow> JUndefined)]))
       (filter (\<lambda>element. field element ''entity_id'' = Inr (JStr entity)) elements)"

text \<open>
  \<open>attributes.friendly_name\<close> of a response object: the property when \<open>attributes\<close>
  is an object, \<open>undefined\<close> otherwise.
\<close>

definition friendly_name :: "props \<Rightarrow> jsval" where
  "friendly_name ps =
     (case get_prop ps ''attributes'' of
        JObj as \<Rightarrow> get_prop as ''friendly_name''
      | _ \<Rightarrow> JUndefined)"

section \<open>Configuration: defaults and setters\<close>

text \<open>
  C6. Whatever the configuration was, \<open>setup(undefined, undefined, undefined, undefined)\<close>
  leaves url "127.0.0.1", port "8123", an empty token and force = true. Each setter
  given \<open>undefined\<close> stores its field's default, and given a value stores that value;
  no other field changes.
\<close>

theorem setup_undefined_defaults:
  "setup_api None None None None self
     = self\<lparr>url := Some ''127.0.0.1'', port := Some ''8123'', token := Some '''', force := True\<rparr>
   \<and> url (setup_api None None None None self) = Some ''127.0.0.1''
   \<and> port (setup_api None None None None self) = Some ''8123''
   \<and> token (setup_api None None None None self) = Some ''''
   \<and> force (setup_api None None None None self) = True
   \<and> changeUrl None self = self\<lparr>url := Some ''127.0.0.1''\<rparr>
   \<and> changePort None self = self\<lparr>port := Some ''8123''\<rparr>
   \<and> changeToken None self = self\<lparr>token := Some ''''\<rparr>
   \<and> changeForce None self = self\<lparr>force := True\<rparr>
   \<and> changeUrl (Some u) self = self\<lparr>url := Some u\<rparr>
   \<and> changePort (Some p) self = self\<lparr>port := Some p\<rparr>
   \<and> changeToken (Some t) self = self\<lparr>token := Some t\<rparr>
   \<and> changeForce (Some f) self = self\<lparr>force := f\<rparr>
   \<and> setup_api (Some u) (Some p) (Some t) (Some f) self
       = self\<lparr>url := Some u, port := Some p, token := Some t, force := f\<rparr>"
  by (simp add: setup_api_def changeUrl_def changePort_def changeToken_def changeForce_def)

section \<open>Facts about the gateway's effects\<close>

lemma requests_sendData: "requests (sendData m fx) = requests fx"
  by (simp add: sendData_def)

lemma sent_sendData: "sent (sendData m fx) = sent fx @ [m]"
  by (simp add: sendData_def)

lemma requests_on_element:
  "on_element entity element fx = Inr fx' \<Longrightarrow> requests fx' = requests fx"
  by (auto simp: on_element_def requests_sendData split: sum.splits if_splits)

lemma requests_forEach_element: "requests (forEach_element entity elements fx) = requests fx"
proof (induction elements arbitrary: fx)
  case Nil
  show ?case by simp
next
  case (Cons element rest)
  show ?case
  proof (cases "on_element entity element fx")
    case (Inl e)
    then show ?thesis by simp
  next
    case (Inr fx')
    with Cons requests_on_element [OF Inr] show ?thesis by simp
  qed
qed

text \<open>A configured \<open>changeEntity\<close> issues exactly one request, whatever comes back.\<close>

lemma requests_changeEntity:
  "isValid self \<Longrightarrow>
     requests (changeEntity env self entity state fx)
       = requests fx @ [change_request self entity state]"
  by (simp add: changeEntity_def Let_def requests_sendData requests_forEach_element
        split: fetch_result.splits option.splits jsval.splits)

text \<open>The domain of an id is a prefix of the id.\<close>

lemma takeWhile_eq_take_prefix: "takeWhile P xs = ys \<Longrightarrow> take (length ys) xs = ys"
  using takeWhile_eq_take [of P xs] by simp

lemma split_head_startsWith: "split_head entity = d \<Longrightarrow> startsWith entity d"
  unfolding split_head_def startsWith_def by (rule takeWhile_eq_take_prefix)

lemma domain_isExecutable:
  "split_head entity \<in> {''script'', ''automation'', ''button''} \<Longrightarrow> isExecutable entity"
  using split_head_startsWith [of entity] by (auto simp: isExecutable_def)

section \<open>The action that is sent for executable domains\<close>

text \<open>
  C1 (as amended). With a valid configuration, \<open>changeEntity\<close> on an entity of the
  script domain issues its one request with the override action "turn_on" in service
  group "script", on an automation with "trigger" in group "automation", on a button
  with "press" in group "button", whatever action the caller asked for. The override for
  scripts in \<open>NextStateOverrides\<close> is "turn_on", not "activate".
\<close>

theorem executable_action_override:
  assumes "isValid self"
  shows "(split_head entity = ''script'' \<longrightarrow>
            requests (changeEntity env self entity action fx)
              = requests fx @
                [\<lparr>req_method = ''POST'',
                  req_url = [JStr (address self), JStr ''/api/services/'', JStr ''script'',
                             JStr ''/'', JStr ''turn_on''],
                  req_body = Some (JObj [(''entity_id'', JStr entity)]),
                  req_headers = headers self\<rparr>])
       \<and> (split_head entity = ''automation'' \<longrightarrow>
            requests (changeEntity env self entity action fx)
              = requests fx @
                [\<lparr>req_method = ''POST'',
                  req_url = [JStr (address self), JStr ''/api/services/'', JStr ''automation'',
                             JStr ''/'', JStr ''trigger''],
                  req_body = Some (JObj [(''entity_id'', JStr entity)]),
                  req_headers = headers self\<rparr>])
       \<and> (split_head entity = ''button'' \<longrightarrow>
            requests (changeEntity env self entity action fx)
              = requests fx @
                [\<lparr>req_method = ''POST'',
                  req_url = [JStr (address self), JStr ''/api/services/'', JStr ''button'',
                             JStr ''/'', JStr ''press''],
                  req_body = Some (JObj [(''entity_id'', JStr entity)]),
                  req_headers = headers self\<rparr>])"
  using assms
  by (simp add: requests_changeEntity change_request_def next_state_def get_prop_def
        Groups_def NextStateOverrides_def js_or_def)

text \<open>The three overrides at work on "script.foo", "automation.morning" and "button.bell".\<close>

theorem executable_action_override_witness:
  "isValid (example_config True)
   \<and> split_head ''script.foo'' = ''script''
   \<and> split_head ''automation.morning'' = ''automation''
   \<and> split_head ''button.bell'' = ''button''
   \<and> map req_url (requests (changeEntity (example_env Rejected) (example_config True)
          ''script.foo'' ''toggle'' no_effects))
       = [[JStr ''http://hass.local:8123'', JStr ''/api/services/'', JStr ''script'',
           JStr ''/'', JStr ''turn_on'']]
   \<and> map req_url (requests (changeEntity (example_env Rejected) (example_config True)
          ''automation.morning'' ''turn_on'' no_effects))
       = [[JStr ''http://hass.local:8123'', JStr ''/api/services/'', JStr ''automation'',
           JStr ''/'', JStr ''trigger'']]
   \<and> map req_url (requests (changeEntity (example_env Rejected) (example_config True)
          ''button.bell'' ''turn_on'' no_effects))
       = [[JStr ''http://hass.local:8123'', JStr ''/api/services/'', JStr ''button'',
           JStr ''/'', JStr ''press'']]"
proof -
  have v: "isValid (example_config True)"
    by (simp add: isValid_def example_config_def)
  have d: "split_head ''script.foo'' = ''script''"
    "split_head ''automation.morning'' = ''automation''"
    "split_head ''button.bell'' = ''button''"
    by (simp_all add: split_head_def)
  show ?thesis
    using v d
      executable_action_override [OF v, of "''script.foo''" "example_env Rejected"
        "''toggle''" no_effects]
      executable_action_override [OF v, of "''automation.morning''" "example_env Rejected"
        "''turn_on''" no_effects]
      executable_action_override [OF v, of "''button.bell''" "example_env Rejected"
        "''turn_on''" no_effects]
    by (simp add: no_effects_def address_def js_str_def example_config_def)
qed

text \<open>
  \<open>changeEntity("script.foo", "turn_on")\<close> sends the action "turn_on", which here is
  also the caller's, and does not send "activate".
\<close>

theorem script_action_counterexample:
  "map req_url (requests (changeEntity (example_env Rejected) (example_config True)
      ''script.foo'' ''turn_on'' no_effects))
     = [[JStr ''http://hass.local:8123'', JStr ''/api/services/'', JStr ''script'',
         JStr ''/'', JStr ''turn_on'']]
   \<and> map req_url (requests (changeEntity (example_env Rejected) (example_config True)
      ''script.foo'' ''turn_on'' no_effects))
     \<noteq> [[JStr ''http://hass.local:8123'', JStr ''/api/services/'', JStr ''script'',
         JStr ''/'', JStr ''activate'']]"
  by (simp add: changeEntity_def isValid_def example_config_def example_env_def no_effects_def
        change_request_def next_state_def split_head_def get_prop_def Groups_def
        NextStateOverrides_def js_or_def address_def js_str_def)

section \<open>An incomplete configuration suppresses every operation\<close>

text \<open>
  C2. When url, port or token is the empty string, \<open>isValid\<close> is false and
  \<open>fetchEntity\<close>, \<open>fetchApiStatus\<close> and \<open>changeEntity\<close> leave the effects as they
  were: no request is handed to \<open>fetch\<close> and no message to \<open>sendData\<close>. The
  operations have no exceptional result: every exception is raised inside their
  \<open>try\<close>. Conversely \<open>isValid\<close> is true when the three fields are non-empty strings.
\<close>

theorem unconfigured_noop:
  "(url self = Some [] \<or> port self = Some [] \<or> token self = Some [] \<longrightarrow>
      \<not> isValid self
      \<and> fetchEntity env self entity fx = fx
      \<and> fetchApiStatus env self fx = fx
      \<and> changeEntity env self entity action fx = fx)
   \<and> (url self = Some u \<and> port self = Some p \<and> token self = Some t
        \<and> u \<noteq> [] \<and> p \<noteq> [] \<and> t \<noteq> [] \<longrightarrow> isValid self)"
  by (auto simp: isValid_def fetchEntity_def fetchApiStatus_def changeEntity_def)

text \<open>An empty token switches the three operations off; the full configuration is valid.\<close>

theorem unconfigured_noop_witness:
  "token (example_config True\<lparr>token := Some []\<rparr>) = Some []
   \<and> \<not> isValid (example_config True\<lparr>token := Some []\<rparr>)
   \<and> changeEntity (example_env Rejected) (example_config True\<lparr>token := Some []\<rparr>)
        ''switch.lamp'' ''turn_on'' no_effects = no_effects
   \<and> fetchEntity (example_env Rejected) (example_config True\<lparr>token := Some []\<rparr>)
        ''switch.lamp'' no_effects = no_effects
   \<and> fetchApiStatus (example_env Rejected) (example_config True\<lparr>token := Some []\<rparr>)
        no_effects = no_effects
   \<and> isValid (example_config True)"
  using unconfigured_noop [where self = "example_config True\<lparr>token := Some []\<rparr>"
      and env = "example_env Rejected" and entity = "''switch.lamp''" and fx = no_effects
      and action = "''turn_on''"]
    unconfigured_noop [where self = "example_config True" and u = "''http://hass.local''"
      and p = "''8123''" and t = "''secret''"]
  by (simp add: example_config_def)

section \<open>Executable entities\<close>

text \<open>
  C5. An entity id whose domain is script, automation or button is executable, and in
  force mode \<open>changeEntity\<close> sends no message for it, whatever the network answers.
  \<open>isExecutable\<close> holds exactly of the ids that begin with "script", "automation" or
  "button".
\<close>

theorem executable_no_forced_change:
  "(split_head entity \<in> {''script'', ''automation'', ''button''} \<longrightarrow>
      isExecutable entity
      \<and> (force self \<longrightarrow> sent (changeEntity env self entity action fx) = sent fx))
   \<and> (isExecutable entity \<longleftrightarrow>
        startsWith entity ''script'' \<or> startsWith entity ''automation''
        \<or> startsWith entity ''button'')"
proof -
  have "sent (changeEntity env self entity action fx) = sent fx"
    if "isExecutable entity" "force self"
    using that
    by (simp add: changeEntity_def Let_def split: fetch_result.splits option.splits)
  moreover have "isExecutable entity \<longleftrightarrow>
        startsWith entity ''script'' \<or> startsWith entity ''automation''
        \<or> startsWith entity ''button''"
    by (simp add: isExecutable_def)
  ultimately show ?thesis
    using domain_isExecutable [of entity] by blast
qed

text \<open>"script.foo" is executable and gets no message in force mode.\<close>

theorem executable_no_forced_change_witness:
  "split_head ''script.foo'' \<in> {''script'', ''automation'', ''button''}
   \<and> force (example_config True)
   \<and> isExecutable ''script.foo''
   \<and> sent (changeEntity (example_env (Responded \<lparr>status = 200, body = Some (JArr [])\<rparr>))
        (example_config True) ''script.foo'' ''turn_on'' no_effects) = []"
  using executable_no_forced_change [where entity = "''script.foo''"
      and self = "example_config True"
      and env = "example_env (Responded \<lparr>status = 200, body = Some (JArr [])\<rparr>)"
      and action = "''turn_on''" and fx = no_effects]
  by (simp add: split_head_def example_config_def no_effects_def)

section \<open>Force mode\<close>

lemma not_executable_domain:
  assumes "\<not> isExecutable entity"
  shows "map_of NextStateOverrides (split_head entity) = None"
proof -
  have "split_head entity \<notin> {''script'', ''automation'', ''button''}"
    using assms domain_isExecutable by blast
  then show ?thesis
    by (simp add: NextStateOverrides_def)
qed

lemma forced_state_of_string:
  assumes "a \<notin> set object_prototype"
  shows "js_or (index_by ForcedStates (JStr a)) (JStr a)
           = (case map_of ForcedStates a of Some v \<Rightarrow> v | None \<Rightarrow> JStr a)"
  using assms
  by (simp add: js_or_def get_prop_def ForcedStates_def)

lemma next_state_not_executable:
  assumes "\<not> isExecutable entity"
  shows "next_state entity action
           = (if split_head entity \<in> set object_prototype then JNative (split_head entity)
              else JStr action)"
  using not_executable_domain [OF assms]
  by (simp add: next_state_def get_prop_def js_or_def)

text \<open>
  Away from the inherited names the force branch sends what the table says: for an
  entity id that is not executable, when neither its domain nor the action is the name
  of a member every object inherits, the action sent is the caller's and the one message
  carries the \<open>ForcedStates\<close> entry of that action, or the action name when the table
  has no entry for it.
\<close>

lemma forced_change_event:
  assumes "isValid self" and "force self" and "\<not> isExecutable entity"
    and "fetch env (change_request self entity action) = Responded r"
    and "ok r" and "body r = Some data"
    and "split_head entity \<notin> set object_prototype"
    and "action \<notin> set object_prototype"
  shows "next_state entity action = JStr action
         \<and> sent (changeEntity env self entity action fx)
             = sent fx @
               [Value (JObj [(''key'', JStr ''change''), (''id'', JStr entity),
                  (''state'',
                   case map_of ForcedStates action of Some v \<Rightarrow> v | None \<Rightarrow> JStr action)])]"
proof -
  have n: "next_state entity action = JStr action"
    using next_state_not_executable [OF assms(3)] assms(7) by simp
  have "sent (changeEntity env self entity action fx)
          = sent fx @
            [Value (JObj [(''key'', JStr ''change''), (''id'', JStr entity),
               (''state'', js_or (index_by ForcedStates (next_state entity action))
                             (next_state entity action))])]"
    using assms(1-6) by (simp add: changeEntity_def Let_def sent_sendData)
  then show ?thesis
    using n forced_state_of_string [OF assms(8)] by simp
qed

text \<open>\<open>changeEntity("switch.lamp", "turn_on")\<close> in force mode sends the state "on".\<close>

lemma forced_change_event_example:
  "sent (changeEntity (example_env (Responded \<lparr>status = 200, body = Some (JArr [])\<rparr>))
      (example_config True) ''switch.lamp'' ''turn_on'' no_effects)
     = [Value (JObj [(''key'', JStr ''change''), (''id'', JStr ''switch.lamp''),
                     (''state'', JStr ''on'')])]"
proof -
  have h: "isValid (example_config True)" "force (example_config True)"
    "\<not> isExecutable ''switch.lamp''"
    "fetch (example_env (Responded \<lparr>status = 200, body = Some (JArr [])\<rparr>))
        (change_request (example_config True) ''switch.lamp'' ''turn_on'')
       = Responded \<lparr>status = 200, body = Some (JArr [])\<rparr>"
    "ok \<lparr>status = 200, body = Some (JArr [])\<rparr>"
    "body \<lparr>status = 200, body = Some (JArr [])\<rparr> = Some (JArr [])"
    "split_head ''switch.lamp'' \<notin> set object_prototype"
    "''turn_on'' \<notin> set object_prototype"
    by (simp_all add: isValid_def example_config_def isExecutable_def startsWith_def
          example_env_def ok_def object_prototype_def split_head_def)
  show ?thesis
    using forced_change_event [OF h, of no_effects]
    by (simp add: ForcedStates_def no_effects_def)
qed

text \<open>
  C3. In force mode a successful \<open>changeEntity\<close> on an entity that is not executable is
  to send exactly one "change" message whose state is the \<open>ForcedStates\<close> entry of the
  action sent, or the action name itself when the table has no entry. The code reads
  the table with \<open>ForcedStates[state] || state\<close>, and a plain object also answers to the
  names it inherits. \<open>ForcedStates\<close> has no entry "constructor", yet for "switch.lamp"
  and the action "constructor" the state sent is the inherited built-in function, not
  the action name. \<open>NextStateOverrides[domain] || state\<close> has the same flaw: for the id
  "constructor.x" and the action "turn_on" the action put into the request is the
  built-in, and so is the state sent, not "on".
\<close>

theorem forced_state_inherited_member:
  "\<not> isExecutable ''switch.lamp''
   \<and> map_of ForcedStates ''constructor'' = None
   \<and> sent (changeEntity (example_env (Responded \<lparr>status = 200, body = Some (JArr [])\<rparr>))
        (example_config True) ''switch.lamp'' ''constructor'' no_effects)
       = [Value (JObj [(''key'', JStr ''change''), (''id'', JStr ''switch.lamp''),
                       (''state'', JNative ''constructor'')])]
   \<and> sent (changeEntity (example_env (Responded \<lparr>status = 200, body = Some (JArr [])\<rparr>))
        (example_config True) ''switch.lamp'' ''constructor'' no_effects)
       \<noteq> [Value (JObj [(''key'', JStr ''change''), (''id'', JStr ''switch.lamp''),
                       (''state'', JStr ''constructor'')])]
   \<and> \<not> isExecutable ''constructor.x''
   \<and> map_of NextStateOverrides ''constructor'' = None
   \<and> map_of ForcedStates ''turn_on'' = Some (JStr ''on'')
   \<and> map req_url (requests (changeEntity
        (example_env (Responded \<lparr>status = 200, body = Some (JArr [])\<rparr>))
        (example_config True) ''constructor.x'' ''turn_on'' no_effects))
       = [[JStr ''http://hass.local:8123'', JStr ''/api/services/'', JNative ''constructor'',
           JStr ''/'', JNative ''constructor'']]
   \<and> sent (changeEntity (example_env (Responded \<lparr>status = 200, body = Some (JArr [])\<rparr>))
        (example_config True) ''constructor.x'' ''turn_on'' no_effects)
       = [Value (JObj [(''key'', JStr ''change''), (''id'', JStr ''constructor.x''),
                       (''state'', JNative ''constructor'')])]"
  by (simp add: changeEntity_def isValid_def example_config_def example_env_def no_effects_def
        change_request_def next_state_def split_head_def get_prop_def Groups_def
        NextStateOverrides_def ForcedStates_def js_or_def address_def js_str_def ok_def
        isExecutable_def startsWith_def object_prototype_def sendData_def Let_def)

section \<open>Read-back mode\<close>

lemma strict_eq_JStr: "strict_eq v (JStr s) \<longleftrightarrow> v = JStr s"
  by (cases v) auto

lemma field_defined:
  "element \<noteq> JNull \<Longrightarrow> element \<noteq> JUndefined \<Longrightarrow> \<exists>v. field element k = Inr v"
  by (cases element) auto

lemma on_element_sent:
  assumes "element \<noteq> JNull" and "element \<noteq> JUndefined"
  shows "\<exists>fx'. on_element entity element fx = Inr fx'
           \<and> sent fx' = sent fx @
                (if isExecutable entity then [] else change_events entity [element])"
proof -
  obtain eid where e: "field element ''entity_id'' = Inr eid"
    using field_defined [OF assms] by blast
  obtain st where s: "field element ''state'' = Inr st"
    using field_defined [OF assms] by blast
  show ?thesis
    by (auto simp: on_element_def e s strict_eq_JStr sent_sendData change_events_def)
qed

lemma change_events_Cons:
  "change_events entity (element # rest)
     = change_events entity [element] @ change_events entity rest"
  by (simp add: change_events_def)

lemma forEach_element_sent:
  assumes "JNull \<notin> set elements" and "JUndefined \<notin> set elements"
  shows "sent (forEach_element entity elements fx)
           = sent fx @ (if isExecutable entity then [] else change_events entity elements)"
  using assms
proof (induction elements arbitrary: fx)
  case Nil
  show ?case by (simp add: change_events_def)
next
  case (Cons element rest)
  from Cons.prems have ne: "element \<noteq> JNull" "element \<noteq> JUndefined"
    and r: "JNull \<notin> set rest" "JUndefined \<notin> set rest"
    by auto
  obtain fx' where o: "on_element entity element fx = Inr fx'"
    and s: "sent fx' = sent fx @
              (if isExecutable entity then [] else change_events entity [element])"
    using on_element_sent [OF ne] by blast
  have "sent (forEach_element entity (element # rest) fx)
          = sent (forEach_element entity rest fx')"
    by (simp add: o)
  also have "\<dots> = sent fx' @ (if isExecutable entity then [] else change_events entity rest)"
    by (rule Cons.IH [OF r])
  finally show ?case
    using s change_events_Cons [of entity element rest] by simp
qed

text \<open>
  C4 (as amended). When the configuration is valid, force is off, and the request is
  answered with a status from 200 to 299 and a body that parses to an array no element
  of which is \<open>null\<close> (or \<open>undefined\<close>), \<open>isEmpty\<close> holding of no array that has
  elements, \<open>changeEntity\<close> sends one "change" message for each element whose
  \<open>entity_id\<close> is the target id, carrying that element's state, in the array's order,
  and nothing for the other elements; for an executable target it sends nothing.
\<close>

theorem readback_change_events:
  assumes "isValid self" and "\<not> force self"
    and "fetch env (change_request self entity action) = Responded r"
    and "ok r" and "body r = Some (JArr elements)"
    and "JNull \<notin> set elements" and "JUndefined \<notin> set elements"
    and "elements \<noteq> [] \<longrightarrow> \<not> isEmpty env (JArr elements)"
  shows "sent (changeEntity env self entity action fx)
           = sent fx @ (if isExecutable entity then [] else change_events entity elements)"
proof (cases "isEmpty env (JArr elements)")
  case True
  with assms(8) have "elements = []" by blast
  then have "change_events entity elements = []"
    by (simp add: change_events_def)
  moreover have "sent (changeEntity env self entity action fx) = sent fx"
    using assms(1-5) True by (simp add: changeEntity_def Let_def)
  ultimately show ?thesis by simp
next
  case False
  have "sent (changeEntity env self entity action fx)
          = sent (forEach_element entity elements
                    (fx\<lparr>requests := requests fx @ [change_request self entity action]\<rparr>))"
    using assms(1-5) False by (simp add: changeEntity_def Let_def)
  then show ?thesis
    using forEach_element_sent [OF assms(6,7)] by simp
qed

text \<open>
  The server reports "cover.shade" and "cover.blinds" open: one message, for
  "cover.blinds". It reports "cover.shade" only: no message.
\<close>

theorem readback_change_events_witness:
  "isValid (example_config False) \<and> \<not> force (example_config False)
   \<and> ok \<lparr>status = 200, body = Some (JArr [shade_open, blinds_open])\<rparr>
   \<and> JNull \<notin> set [shade_open, blinds_open] \<and> JUndefined \<notin> set [shade_open, blinds_open]
   \<and> \<not> isEmpty (example_env (Responded \<lparr>status = 200, body = Some (JArr [shade_open, blinds_open])\<rparr>))
          (JArr [shade_open, blinds_open])
   \<and> sent (changeEntity
        (example_env (Responded \<lparr>status = 200, body = Some (JArr [shade_open, blinds_open])\<rparr>))
        (example_config False) ''cover.blinds'' ''open_cover'' no_effects)
       = [Value (JObj [(''key'', JStr ''change''), (''id'', JStr ''cover.blinds''),
                       (''state'', JStr ''open'')])]
   \<and> sent (changeEntity
        (example_env (Responded \<lparr>status = 200, body = Some (JArr [shade_open])\<rparr>))
        (example_config False) ''cover.blinds'' ''open_cover'' no_effects)
       = []"
proof -
  let ?r2 = "\<lparr>status = 200, body = Some (JArr [shade_open, blinds_open])\<rparr>"
  let ?r1 = "\<lparr>status = 200, body = Some (JArr [shade_open])\<rparr>"
  have c: "isValid (example_config False)" "\<not> force (example_config False)"
    by (simp_all add: isValid_def example_config_def)
  have e: "\<not> isExecutable ''cover.blinds''"
    by (simp add: isExecutable_def startsWith_def)
  have h2: "fetch (example_env (Responded ?r2))
              (change_request (example_config False) ''cover.blinds'' ''open_cover'')
            = Responded ?r2"
    "ok ?r2" "body ?r2 = Some (JArr [shade_open, blinds_open])"
    "JNull \<notin> set [shade_open, blinds_open]" "JUndefined \<notin> set [shade_open, blinds_open]"
    "[shade_open, blinds_open] \<noteq> [] \<longrightarrow>
       \<not> isEmpty (example_env (Responded ?r2)) (JArr [shade_open, blinds_open])"
    by (simp_all add: example_env_def ok_def shade_open_def blinds_open_def)
  have h1: "fetch (example_env (Responded ?r1))
              (change_request (example_config False) ''cover.blinds'' ''open_cover'')
            = Responded ?r1"
    "ok ?r1" "body ?r1 = Some (JArr [shade_open])"
    "JNull \<notin> set [shade_open]" "JUndefined \<notin> set [shade_open]"
    "[shade_open] \<noteq> [] \<longrightarrow> \<not> isEmpty (example_env (Responded ?r1)) (JArr [shade_open])"
    by (simp_all add: example_env_def ok_def shade_open_def)
  show ?thesis
    using c e h2(2,4,5,6)
      readback_change_events [OF c h2, of no_effects]
      readback_change_events [OF c h1, of no_effects]
    by (simp add: change_events_def shade_open_def blinds_open_def get_prop_def no_effects_def)
qed

text \<open>
  A \<open>null\<close> element ends the loop. With the body \<open>[null, blinds_open]\<close> the element
  for "cover.blinds" matches the target and no message is sent; with
  \<open>[blinds_open, null, blinds_open]\<close> only the first of the two matching elements gets
  its message.
\<close>

theorem readback_null_counterexample:
  "field blinds_open ''entity_id'' = Inr (JStr ''cover.blinds'')
   \<and> \<not> isExecutable ''cover.blinds''
   \<and> sent (changeEntity
        (example_env (Responded \<lparr>status = 200, body = Some (JArr [JNull, blinds_open])\<rparr>))
        (example_config False) ''cover.blinds'' ''open_cover'' no_effects)
       = []
   \<and> sent (changeEntity
        (example_env (Responded
           \<lparr>status = 200, body = Some (JArr [blinds_open, JNull, blinds_open])\<rparr>))
        (example_config False) ''cover.blinds'' ''open_cover'' no_effects)
       = [Value (JObj [(''key'', JStr ''change''), (''id'', JStr ''cover.blinds''),
                       (''state'', JStr ''open'')])]"
  by (simp add: changeEntity_def isValid_def example_config_def example_env_def no_effects_def
        ok_def blinds_open_def on_element_def get_prop_def isExecutable_def startsWith_def
        sendData_def Let_def)

section \<open>A new configuration object\<close>

text \<open>
  C7 (as amended). A newly created \<open>HomeAssistantAPI\<close> holds an empty url, an empty
  port, an empty token and force = false, and is not valid; the defaults "127.0.0.1",
  "8123", empty token and force = true are what \<open>setup\<close> stores when it is called
  with four undefined arguments.
\<close>

theorem new_config_fields:
  "url new_HomeAssistantAPI = Some []
   \<and> port new_HomeAssistantAPI = Some []
   \<and> token new_HomeAssistantAPI = Some []
   \<and> force new_HomeAssistantAPI = False
   \<and> \<not> isValid new_HomeAssistantAPI
   \<and> setup_api None None None None new_HomeAssistantAPI
       = \<lparr>url = Some ''127.0.0.1'', port = Some ''8123'', token = Some [], force = True\<rparr>"
  by (simp add: new_HomeAssistantAPI_def isValid_def setup_api_def changeUrl_def
        changePort_def changeToken_def changeForce_def)

text \<open>The new object does not hold the defaults.\<close>

theorem new_config_counterexample:
  "new_HomeAssistantAPI
     \<noteq> \<lparr>url = Some ''127.0.0.1'', port = Some ''8123'', token = Some [], force = True\<rparr>
   \<and> url new_HomeAssistantAPI \<noteq> Some ''127.0.0.1''
   \<and> port new_HomeAssistantAPI \<noteq> Some ''8123''
   \<and> force new_HomeAssistantAPI \<noteq> True"
  by (simp add: new_HomeAssistantAPI_def)

section \<open>The record sent by fetchEntity\<close>

lemma add_message_object:
  assumes "get_prop ps ''entity_id'' = JStr eid"
  shows "add_message (JObj ps)
           = Inr [(''key'', JStr ''add''), (''id'', JStr eid),
                  (''name'', if truthy (friendly_name ps) then friendly_name ps else JStr eid),
                  (''state'', if isExecutable eid then JStr ''exe'' else get_prop ps ''state''),
                  (''type'', JStr (split_head eid))]"
proof (cases "get_prop ps ''attributes''")
  case (JObj as)
  then show ?thesis
    using assms by (simp add: add_message_def friendly_name_def Let_def)
qed (use assms in \<open>simp_all add: add_message_def friendly_name_def Let_def\<close>)

text \<open>
  C8 (as amended). When the configuration is valid and the request is answered with a
  status from 200 to 299 and an object whose \<open>entity_id\<close> is a string, \<open>fetchEntity\<close>
  sends one "add" message. Its name is the entity id, unless \<open>attributes\<close> is an object
  with a truthy \<open>friendly_name\<close> (a non-empty string, say), which is then the name. Its
  state is "exe" when the id begins with "script", "automation" or "button", as it does
  whenever its domain is one of the three, and the server's state otherwise.
\<close>

theorem fetchEntity_add_record:
  assumes "isValid self"
    and "fetch env (entity_request self entity) = Responded r"
    and "ok r" and "body r = Some (JObj ps)"
    and "get_prop ps ''entity_id'' = JStr eid"
  shows "sent (fetchEntity env self entity fx)
           = sent fx @
             [Value (JObj
                [(''key'', JStr ''add''), (''id'', JStr eid),
                 (''name'', if truthy (friendly_name ps) then friendly_name ps else JStr eid),
                 (''state'', if isExecutable eid then JStr ''exe'' else get_prop ps ''state''),
                 (''type'', JStr (split_head eid))])]
         \<and> (split_head eid \<in> {''script'', ''automation'', ''button''} \<longrightarrow> isExecutable eid)"
  using assms(1-4) add_message_object [OF assms(5)] domain_isExecutable [of eid]
  by (simp add: fetchEntity_def Let_def sent_sendData)

text \<open>A light with a friendly name, and a script.\<close>

theorem fetchEntity_add_record_witness:
  "isValid (example_config True)
   \<and> ok \<lparr>status = 200, body = Some (JObj kitchen_light)\<rparr>
   \<and> get_prop kitchen_light ''entity_id'' = JStr ''light.kitchen''
   \<and> get_prop morning_script ''entity_id'' = JStr ''script.morning''
   \<and> split_head ''script.morning'' \<in> {''script'', ''automation'', ''button''}
   \<and> sent (fetchEntity (example_env (Responded \<lparr>status = 200, body = Some (JObj kitchen_light)\<rparr>))
        (example_config True) ''light.kitchen'' no_effects)
       = [Value (JObj [(''key'', JStr ''add''), (''id'', JStr ''light.kitchen''),
                       (''name'', JStr ''Kitchen''), (''state'', JStr ''on''),
                       (''type'', JStr ''light'')])]
   \<and> sent (fetchEntity (example_env (Responded \<lparr>status = 200, body = Some (JObj morning_script)\<rparr>))
        (example_config True) ''script.morning'' no_effects)
       = [Value (JObj [(''key'', JStr ''add''), (''id'', JStr ''script.morning''),
                       (''name'', JStr ''script.morning''), (''state'', JStr ''exe''),
                       (''type'', JStr ''script'')])]"
proof -
  let ?rk = "\<lparr>status = 200, body = Some (JObj kitchen_light)\<rparr>"
  let ?rm = "\<lparr>status = 200, body = Some (JObj morning_script)\<rparr>"
  have v: "isValid (example_config True)"
    by (simp add: isValid_def example_config_def)
  have k: "fetch (example_env (Responded ?rk)) (entity_request (example_config True) ''light.kitchen'')
             = Responded ?rk"
    "ok ?rk" "body ?rk = Some (JObj kitchen_light)"
    "get_prop kitchen_light ''entity_id'' = JStr ''light.kitchen''"
    by (simp_all add: example_env_def ok_def kitchen_light_def get_prop_def)
  have m: "fetch (example_env (Responded ?rm)) (entity_request (example_config True) ''script.morning'')
             = Responded ?rm"
    "ok ?rm" "body ?rm = Some (JObj morning_script)"
    "get_prop morning_script ''entity_id'' = JStr ''script.morning''"
    by (simp_all add: example_env_def ok_def morning_script_def get_prop_def)
  have d: "split_head ''script.morning'' \<in> {''script'', ''automation'', ''button''}"
    "split_head ''script.morning'' = ''script''" "split_head ''light.kitchen'' = ''light''"
    by (simp_all add: split_head_def)
  have f: "friendly_name kitchen_light = JStr ''Kitchen''"
    "friendly_name morning_script = JUndefined"
    "get_prop kitchen_light ''state'' = JStr ''on''"
    "\<not> isExecutable ''light.kitchen''"
    by (simp_all add: friendly_name_def kitchen_light_def morning_script_def get_prop_def
          object_prototype_def isExecutable_def startsWith_def)
  show ?thesis
    using v k(2,4) m(4) d(1)
      fetchEntity_add_record [OF v k, of no_effects]
      fetchEntity_add_record [OF v m, of no_effects]
    by (simp add: d f no_effects_def)
qed

text \<open>
  The id "scripted.x" has the domain "scripted" and is sent with the state "exe"; an
  empty friendly name is carried by the response and the name sent is the id.
\<close>

theorem fetchEntity_add_record_counterexample:
  "split_head ''scripted.x'' \<notin> {''script'', ''automation'', ''button''}
   \<and> sent (fetchEntity (example_env (Responded \<lparr>status = 200, body = Some (JObj scripted_entity)\<rparr>))
        (example_config True) ''scripted.x'' no_effects)
       = [Value (JObj [(''key'', JStr ''add''), (''id'', JStr ''scripted.x''),
                       (''name'', JStr ''scripted.x''), (''state'', JStr ''exe''),
                       (''type'', JStr ''scripted'')])]
   \<and> map_of [(''friendly_name'', JStr [])] ''friendly_name'' = Some (JStr [])
   \<and> sent (fetchEntity (example_env (Responded \<lparr>status = 200, body = Some (JObj unnamed_light)\<rparr>))
        (example_config True) ''light.hall'' no_effects)
       = [Value (JObj [(''key'', JStr ''add''), (''id'', JStr ''light.hall''),
                       (''name'', JStr ''light.hall''), (''state'', JStr ''on''),
                       (''type'', JStr ''light'')])]"
  by (simp add: fetchEntity_def isValid_def example_config_def example_env_def no_effects_def
        ok_def add_message_def scripted_entity_def unnamed_light_def get_prop_def
        split_head_def isExecutable_def startsWith_def sendData_def Let_def)

section \<open>The store: clear\<close>

lemma map_of_set_prop: "map_of (set_prop ps k v) k' = (if k' = k then Some v else map_of ps k')"
  by (induction ps) auto

lemma get_prop_set_prop:
  "get_prop (set_prop ps k v) k' = (if k' = k then v else get_prop ps k')"
  by (simp add: get_prop_def map_of_set_prop)

lemma field_after_key:
  "field data ''key'' = Inr key \<Longrightarrow> \<exists>v. field data k = Inr v"
  by (cases data) auto

text \<open>
  C10. A "clear" message empties \<open>Entities\<close> and the persisted list
  \<open>settings.entities\<close> and nothing else: \<open>Categories\<close>, the flag \<open>Available\<close>, the
  address text, the other settings, the list length and the replies are as before, and
  the handler does not throw.
\<close>

theorem clear_frame:
  assumes "field data ''key'' = Inr (JStr ''clear'')" and "k \<noteq> ''entities''"
  shows "onmessage data s
           = (None, s\<lparr>Entities := [],
                      settings := set_prop (settings s) ''entities'' (JArr [])\<rparr>)
         \<and> Entities (snd (onmessage data s)) = []
         \<and> get_prop (settings (snd (onmessage data s))) ''entities'' = JArr []
         \<and> get_prop (settings (snd (onmessage data s))) k = get_prop (settings s) k
         \<and> Categories (snd (onmessage data s)) = Categories s
         \<and> Available (snd (onmessage data s)) = Available s
         \<and> AddressText (snd (onmessage data s)) = AddressText s
         \<and> list_length (snd (onmessage data s)) = list_length s
         \<and> replies (snd (onmessage data s)) = replies s"
proof -
  obtain a b c d where f: "field data ''id'' = Inr a" "field data ''name'' = Inr b"
    "field data ''state'' = Inr c" "field data ''value'' = Inr d"
    using field_after_key [OF assms(1)] by metis
  have "onmessage data s
          = (None, s\<lparr>Entities := [],
                     settings := set_prop (settings s) ''entities'' (JArr [])\<rparr>)"
    by (simp add: onmessage_def assms(1) f)
  then show ?thesis
    using assms(2) by (simp add: get_prop_set_prop)
qed

text \<open>The categories recorded in the example store survive a "clear".\<close>

theorem clear_frame_witness:
  "field (JObj [(''key'', JStr ''clear'')]) ''key'' = Inr (JStr ''clear'')
   \<and> ''url'' \<noteq> ''entities''
   \<and> Entities (snd (onmessage (JObj [(''key'', JStr ''clear'')]) example_store)) = []
   \<and> get_prop (settings (snd (onmessage (JObj [(''key'', JStr ''clear'')]) example_store)))
        ''entities'' = JArr []
   \<and> get_prop (settings (snd (onmessage (JObj [(''key'', JStr ''clear'')]) example_store)))
        ''url'' = JStr ''localhost''
   \<and> Categories (snd (onmessage (JObj [(''key'', JStr ''clear'')]) example_store))
       = [JObj [(''id'', JStr ''light.a'')], JStr ''light'']
   \<and> Available (snd (onmessage (JObj [(''key'', JStr ''clear'')]) example_store)) = True"
proof -
  have h: "field (JObj [(''key'', JStr ''clear'')]) ''key'' = Inr (JStr ''clear'')"
    "''url'' \<noteq> ''entities''"
    by (simp_all add: get_prop_def)
  show ?thesis
    using h clear_frame [OF h, of example_store]
    by (simp add: example_store_def example_settings_def get_prop_def)
qed

section \<open>The store: add, and the category list\<close>

lemma category_names_append:
  "category_names (cs @ [v]) = category_names cs @ (case v of JStr c \<Rightarrow> [c] | _ \<Rightarrow> [])"
  by (induction cs rule: category_names.induct) (auto split: jsval.splits)

lemma categoryExists_names:
  "categoryExists cs (JStr c) \<longleftrightarrow> c \<in> set (category_names cs)"
  by (induction cs rule: category_names.induct) auto

lemma getTileInfo_info:
  assumes "getTileInfo data index = Inr info"
  shows "get_prop info ''type'' = JStr ''item-pool''
         \<and> (\<exists>s. index < length data \<and> get_prop (data ! index) ''id'' = JStr s
                \<and> get_prop info ''category'' = JStr (split_head s))"
  using assms
  by (auto simp: getTileInfo_def get_prop_def split: if_splits jsval.splits)

lemma configureTile_names:
  assumes "get_prop info ''type'' = JStr ''item-pool''"
    and "get_prop info ''category'' = JStr c"
  shows "category_names (Categories (configureTile info s))
           = (if c \<in> set (category_names (Categories s)) then category_names (Categories s)
              else category_names (Categories s) @ [c])"
  using assms by (simp add: configureTile_def categoryExists_names category_names_append)

lemma onmessage_names:
  "category_names (Categories (snd (onmessage data s))) = category_names (Categories s)"
proof (cases "field data ''key''")
  case (Inl e)
  then show ?thesis by (simp add: onmessage_def)
next
  case (Inr key)
  obtain a b c d where f: "field data ''id'' = Inr a" "field data ''name'' = Inr b"
    "field data ''state'' = Inr c" "field data ''value'' = Inr d"
    using field_after_key [OF Inr] by metis
  show ?thesis
    by (simp add: onmessage_def Inr f Let_def setupList_def category_names_append
          split: jsval.splits)
qed

lemma apply_step_distinct:
  assumes "distinct (category_names (Categories s))"
  shows "distinct (category_names (Categories (apply_step x s)))"
proof (cases x)
  case (Message data)
  then show ?thesis using assms by (simp add: onmessage_names)
next
  case (Tile data index)
  show ?thesis
  proof (cases "getTileInfo data index")
    case (Inl e)
    then show ?thesis using assms Tile by simp
  next
    case (Inr info)
    from getTileInfo_info [OF Inr] obtain c where
      "get_prop info ''type'' = JStr ''item-pool''" "get_prop info ''category'' = JStr c"
      by blast
    then show ?thesis
      using assms Tile Inr by (simp add: configureTile_names)
  qed
qed

lemma run_distinct:
  "distinct (category_names (Categories s))
     \<Longrightarrow> distinct (category_names (Categories (run steps s)))"
  by (induction steps arbitrary: s) (simp_all add: apply_step_distinct)

text \<open>
  C9 (as amended). On an "add" message, when \<open>settings.entities\<close> is an array, the
  handler does not throw, appends the entity record to \<open>Entities\<close> and its persisted
  equivalent to \<open>settings.entities\<close>, and records no category name. The category name
  of an entity (the domain prefix of its id) is recorded when a tile is configured for
  it, and only when the scan of \<open>Categories\<close> finds no equal entry. So after any
  sequence of messages and tile renderings from the initial state, no category name
  occurs twice in \<open>Categories\<close>.
\<close>

theorem add_and_categories:
  assumes "get_prop ps ''key'' = JStr ''add''"
    and "get_prop (settings s) ''entities'' = JArr es"
    and "getTileInfo data index = Inr info"
    and "get_prop (data ! index) ''id'' = JStr ident"
  shows "fst (onmessage (JObj ps) s) = None
         \<and> Entities (snd (onmessage (JObj ps) s))
             = Entities s @ [[(''id'', get_prop ps ''id''), (''name'', get_prop ps ''name''),
                              (''state'', get_prop ps ''state'')]]
         \<and> get_prop (settings (snd (onmessage (JObj ps) s))) ''entities''
             = JArr (es @ [JObj [(''name'', get_prop ps ''id'')]])
         \<and> category_names (Categories (snd (onmessage (JObj ps) s)))
             = category_names (Categories s)
         \<and> category_names (Categories (configureTile info s))
             = (if split_head ident \<in> set (category_names (Categories s))
                then category_names (Categories s)
                else category_names (Categories s) @ [split_head ident])
         \<and> distinct (category_names (Categories (run steps (initial_store env file))))"
proof -
  have m: "onmessage (JObj ps) s
             = (None,
                s\<lparr>Entities := Entities s @ [[(''id'', get_prop ps ''id''),
                     (''name'', get_prop ps ''name''), (''state'', get_prop ps ''state'')]],
                  settings := set_prop (settings s) ''entities''
                     (JArr (es @ [JObj [(''name'', get_prop ps ''id'')]])),
                  list_length := Suc (length (Entities s)),
                  Categories := Categories s @ [JObj [(''id'', get_prop ps ''id'')]]\<rparr>)"
    using assms(1,2) by (simp add: onmessage_def Let_def setupList_def)
  from getTileInfo_info [OF assms(3)] assms(4)
  have i: "get_prop info ''type'' = JStr ''item-pool''"
    "get_prop info ''category'' = JStr (split_head ident)"
    by auto
  have d: "distinct (category_names (Categories (run steps (initial_store env file))))"
    by (rule run_distinct) (simp add: initial_store_def)
  show ?thesis
    using d by (simp add: m get_prop_set_prop category_names_append configureTile_names [OF i])
qed

text \<open>Adding "light.b" to the example store, and a tile for "switch.c".\<close>

theorem add_and_categories_witness:
  "get_prop (add_event ''light.b'') ''key'' = JStr ''add''
   \<and> get_prop (settings example_store) ''entities'' = JArr [JObj [(''name'', JStr ''light.a'')]]
   \<and> getTileInfo [example_entity ''switch.c''] 0
       = Inr [(''type'', JStr ''item-pool''), (''category'', JStr ''switch''),
              (''name'', JStr ''switch.c''), (''state'', JStr ''on''), (''index'', JNum 0)]
   \<and> get_prop ([example_entity ''switch.c''] ! 0) ''id'' = JStr ''switch.c''
   \<and> fst (onmessage (JObj (add_event ''light.b'')) example_store) = None
   \<and> Entities (snd (onmessage (JObj (add_event ''light.b'')) example_store))
       = [[(''id'', JStr ''light.a''), (''name'', JStr ''Lamp''), (''state'', JStr ''on'')],
          [(''id'', JStr ''light.b''), (''name'', JStr ''light.b''), (''state'', JStr ''on'')]]
   \<and> get_prop (settings (snd (onmessage (JObj (add_event ''light.b'')) example_store)))
        ''entities''
       = JArr [JObj [(''name'', JStr ''light.a'')], JObj [(''name'', JStr ''light.b'')]]
   \<and> category_names (Categories (snd (onmessage (JObj (add_event ''light.b'')) example_store)))
       = [''light'']
   \<and> category_names (Categories (configureTile
        [(''type'', JStr ''item-pool''), (''category'', JStr ''switch''),
         (''name'', JStr ''switch.c''), (''state'', JStr ''on''), (''index'', JNum 0)]
        example_store))
       = [''light'', ''switch'']
   \<and> distinct (category_names (Categories
        (run [Message (JObj (add_event ''light.a'')), Tile [example_entity ''light.a''] 0,
              Message (JObj (add_event ''light.b'')), Tile [example_entity ''light.b''] 0]
           (initial_store (example_env Rejected) (Some example_settings)))))"
proof -
  have h: "get_prop (add_event ''light.b'') ''key'' = JStr ''add''"
    "get_prop (settings example_store) ''entities'' = JArr [JObj [(''name'', JStr ''light.a'')]]"
    "getTileInfo [example_entity ''switch.c''] 0
       = Inr [(''type'', JStr ''item-pool''), (''category'', JStr ''switch''),
              (''name'', JStr ''switch.c''), (''state'', JStr ''on''), (''index'', JNum 0)]"
    "get_prop ([example_entity ''switch.c''] ! 0) ''id'' = JStr ''switch.c''"
    by (simp_all add: add_event_def example_entity_def get_prop_def example_store_def
          example_settings_def getTileInfo_def split_head_def)
  have c: "category_names (Categories example_store) = [''light'']"
    "Entities example_store
       = [[(''id'', JStr ''light.a''), (''name'', JStr ''Lamp''), (''state'', JStr ''on'')]]"
    "get_prop (add_event ''light.b'') ''id'' = JStr ''light.b''"
    "get_prop (add_event ''light.b'') ''name'' = JStr ''light.b''"
    "get_prop (add_event ''light.b'') ''state'' = JStr ''on''"
    "split_head ''switch.c'' = ''switch''"
    by (simp_all add: example_store_def add_event_def get_prop_def split_head_def)
  show ?thesis
    using h
      add_and_categories [OF h, of
        "[Message (JObj (add_event ''light.a'')), Tile [example_entity ''light.a''] 0,
          Message (JObj (add_event ''light.b'')), Tile [example_entity ''light.b''] 0]"
        "example_env Rejected" "Some example_settings"]
    by (simp add: c)
qed

text \<open>
  Two "add" messages for "light.a" leave two equal entries in \<open>Categories\<close>, neither
  of them a category name, and no scan took place. With the fallback settings, which have
  no \<open>entities\<close>, the handler throws before anything is persisted.
\<close>

theorem add_and_categories_counterexample:
  "Categories (run [Message (JObj (add_event ''light.a'')), Message (JObj (add_event ''light.a''))]
      (initial_store (example_env Rejected) (Some example_settings)))
     = [JObj [(''id'', JStr ''light.a'')], JObj [(''id'', JStr ''light.a'')]]
   \<and> \<not> distinct (Categories
        (run [Message (JObj (add_event ''light.a'')), Message (JObj (add_event ''light.a''))]
           (initial_store (example_env Rejected) (Some example_settings))))
   \<and> fst (onmessage (JObj (add_event ''light.a'')) (initial_store (example_env Rejected) None))
       = Some TypeError
   \<and> settings (snd (onmessage (JObj (add_event ''light.a''))
        (initial_store (example_env Rejected) None)))
       = loadSettings None
   \<and> Categories (snd (onmessage (JObj (add_event ''light.a''))
        (initial_store (example_env Rejected) None)))
       = []"
  by (simp add: onmessage_def initial_store_def loadSettings_def example_settings_def
        add_event_def get_prop_def set_prop.simps setupList_def Let_def object_prototype_def)

end
